theory Spec2Isabelle
  imports Main "HOL-Library.Word"
begin

section \<open>JavaScript strings\<close>

text \<open>
  A JavaScript string is a sequence of UTF-16 code units; \<open>length\<close> counts code units,
  as \<open>String.prototype.length\<close> and zod's \<open>min\<close>/\<open>max\<close> do. \<open>js\<close> writes an ASCII
  literal of the source as such a sequence.
\<close>

type_synonym jsstring = "16 word list"

definition js :: "string \<Rightarrow> jsstring" where
  "js s = map (\<lambda>c. of_nat (of_char c)) s"

text \<open>
  \<open>String.prototype.trim\<close> removes the ECMAScript WhiteSpace and LineTerminator code
  points from both ends.
\<close>

definition isWhiteSpace :: "16 word \<Rightarrow> bool" where
  "isWhiteSpace c \<longleftrightarrow>
     c \<in> set [0x0009, 0x000A, 0x000B, 0x000C, 0x000D, 0x0020, 0x00A0, 0x1680,
       0x2000, 0x2001, 0x2002, 0x2003, 0x2004, 0x2005, 0x2006, 0x2007, 0x2008, 0x2009,
       0x200A, 0x2028, 0x2029, 0x202F, 0x205F, 0x3000, 0xFEFF]"

definition trim :: "jsstring \<Rightarrow> jsstring" where
  "trim s = rev (dropWhile isWhiteSpace (rev (dropWhile isWhiteSpace s)))"

text \<open>\<open>Array.prototype.join\<close> on an array of strings.\<close>

fun join :: "jsstring \<Rightarrow> jsstring list \<Rightarrow> jsstring" where
  "join sep [] = []"
| "join sep [x] = x"
| "join sep (x # y # ys) = x @ sep @ join sep (y # ys)"


section \<open>The API service\<close>

subsection \<open>The entity (entities/task.entity.ts)\<close>

text \<open>
  Modelled from the spec: the enum \<open>TaskStatus\<close> of \<open>enums/task-status.enum.ts\<close>, which
  is not among the source files; the spec and the entity's column comment give its three
  values todo, progress and done.
\<close>

datatype TaskStatus = TODO | PROGRESS | DONE

type_synonym date = nat

record Task =
  task_id :: jsstring
  title :: jsstring
  status :: TaskStatus
  createdAt :: date
  updatedAt :: date
  deletedAt :: "date option"

subsection \<open>The ORM repository over the table \<open>tasks\<close>\<close>

text \<open>
  The table is the list of its rows, soft-deleted rows included. What the database and
  the ORM supply on a write is the environment: the generated primary key and the
  current timestamp.
\<close>

type_synonym table = "Task list"

text \<open>
  The id column is declared with \<open>PrimaryGeneratedColumn('uuid')\<close>: it is the primary key, so no two rows
  have the same id.
\<close>

definition primary_key :: "table \<Rightarrow> bool" where
  "primary_key tbl \<longleftrightarrow> distinct (map task_id tbl)"

record env =
  generated_uuid :: jsstring
  current_timestamp :: date

text \<open>
  A SELECT of the ORM's query builder: the rows that satisfy the criterion. For an entity
  with a delete-date column the ORM adds the condition that \<open>deletedAt\<close> is null, unless
  the query asks for deleted rows too.
\<close>

fun select_rows :: "bool \<Rightarrow> (Task \<Rightarrow> bool) \<Rightarrow> table \<Rightarrow> Task list" where
  "select_rows withDeleted wh [] = []"
| "select_rows withDeleted wh (r # rs) =
     (if wh r \<and> (withDeleted \<or> deletedAt r = None)
      then r # select_rows withDeleted wh rs
      else select_rows withDeleted wh rs)"

definition repository_find :: "table \<Rightarrow> Task list" where
  "repository_find tbl = select_rows False (\<lambda>r. True) tbl"

definition repository_findOneBy :: "jsstring \<Rightarrow> table \<Rightarrow> Task option" where
  "repository_findOneBy i tbl =
     (case select_rows False (\<lambda>r. task_id r = i) tbl of [] \<Rightarrow> None | r # rs \<Rightarrow> Some r)"

text \<open>
  \<open>repository.create({title})\<close> builds an entity that has a title only; saving it
  inserts a row in which the columns left out take the entity's declared values: a
  generated uuid, the default status \<open>TaskStatus.TODO\<close>, both dates set to the current
  timestamp and no deletion date. The saved entity is returned with these columns filled.
\<close>

record NewTask =
  new_title :: jsstring
  new_status :: "TaskStatus option"

definition repository_create :: "jsstring \<Rightarrow> NewTask" where
  "repository_create t = \<lparr>new_title = t, new_status = None\<rparr>"

definition repository_insert :: "env \<Rightarrow> NewTask \<Rightarrow> table \<Rightarrow> Task \<times> table" where
  "repository_insert e n tbl =
     (let row = \<lparr>task_id = generated_uuid e,
                 title = new_title n,
                 status = (case new_status n of None \<Rightarrow> TODO | Some s \<Rightarrow> s),
                 createdAt = current_timestamp e,
                 updatedAt = current_timestamp e,
                 deletedAt = None\<rparr>
      in (row, tbl @ [row]))"

text \<open>
  Saving an entity that was loaded from the table is an UPDATE of the row with its primary
  key; the ORM sets the update-date column on it.
\<close>

definition repository_save :: "env \<Rightarrow> Task \<Rightarrow> table \<Rightarrow> Task \<times> table" where
  "repository_save e task tbl =
     (let saved = task\<lparr>updatedAt := current_timestamp e\<rparr>
      in (saved, map (\<lambda>r. if task_id r = task_id task then saved else r) tbl))"

text \<open>
  \<open>repository.softDelete(id)\<close> is an UPDATE of the rows with that primary key: it sets the
  delete-date column and, as on every UPDATE the ORM issues, the update-date column, and
  reports the number of rows it matched. The statement has no condition on \<open>deletedAt\<close>.
\<close>

definition repository_softDelete :: "env \<Rightarrow> jsstring \<Rightarrow> table \<Rightarrow> nat \<times> table" where
  "repository_softDelete e i tbl =
     (length (filter (\<lambda>r. task_id r = i) tbl),
      map (\<lambda>r. if task_id r = i
                then r\<lparr>deletedAt := Some (current_timestamp e),
                       updatedAt := current_timestamp e\<rparr>
                else r) tbl)"

subsection \<open>The validation schema (dto/create-task.dto.ts)\<close>

text \<open>
  \<open>z.string().min(1).max(255).trim()\<close>: zod runs a string schema's checks in the order
  they were chained, each on the current value; \<open>min\<close> and \<open>max\<close> record an issue,
  \<open>trim\<close> replaces the value. The parse succeeds with the final value when no issue was
  recorded.
\<close>

datatype check = Min nat | Max nat | Trim

datatype ZodIssue = too_small | too_big

fun run_checks :: "check list \<Rightarrow> jsstring \<Rightarrow> ZodIssue list \<Rightarrow> jsstring \<times> ZodIssue list" where
  "run_checks [] s issues = (s, issues)"
| "run_checks (Min n # cs) s issues =
     run_checks cs s (if length s < n then issues @ [too_small] else issues)"
| "run_checks (Max n # cs) s issues =
     run_checks cs s (if length s > n then issues @ [too_big] else issues)"
| "run_checks (Trim # cs) s issues = run_checks cs (trim s) issues"

record CreateTaskDto =
  dto_title :: jsstring

definition CreateTaskSchema :: "jsstring \<Rightarrow> ZodIssue list + CreateTaskDto" where
  "CreateTaskSchema t =
     (case run_checks [Min 1, Max 255, Trim] t [] of
        (v, []) \<Rightarrow> Inr \<lparr>dto_title = v\<rparr>
      | (v, i # issues) \<Rightarrow> Inl (i # issues))"

subsection \<open>TaskService\<close>

text \<open>The exception carries the id its message names.\<close>

datatype error = NotFoundException jsstring

definition create :: "env \<Rightarrow> CreateTaskDto \<Rightarrow> table \<Rightarrow> Task \<times> table" where
  "create e createTaskDto tbl =
     (let task = repository_create (dto_title createTaskDto)
      in repository_insert e task tbl)"

definition findAll :: "table \<Rightarrow> Task list" where
  "findAll tbl = repository_find tbl"

definition findOne :: "jsstring \<Rightarrow> table \<Rightarrow> error + Task" where
  "findOne i tbl =
     (case repository_findOneBy i tbl of
        None \<Rightarrow> Inl (NotFoundException i)
      | Some task \<Rightarrow> Inr task)"

definition updateStatus ::
  "env \<Rightarrow> jsstring \<Rightarrow> TaskStatus \<Rightarrow> table \<Rightarrow> (error + Task) \<times> table" where
  "updateStatus e i s tbl =
     (case findOne i tbl of
        Inl err \<Rightarrow> (Inl err, tbl)
      | Inr task \<Rightarrow>
          (case repository_save e (task\<lparr>status := s\<rparr>) tbl of
             (saved, tbl') \<Rightarrow> (Inr saved, tbl')))"

definition remove :: "env \<Rightarrow> jsstring \<Rightarrow> table \<Rightarrow> (error + unit) \<times> table" where
  "remove e i tbl =
     (case repository_softDelete e i tbl of
        (affected, tbl') \<Rightarrow>
          if affected = 0 then (Inl (NotFoundException i), tbl') else (Inr (), tbl'))"

text \<open>The four public operations of the service as one step on the table.\<close>

datatype operation =
    Create CreateTaskDto
  | FindAll
  | UpdateStatus jsstring TaskStatus
  | Remove jsstring

fun run_operation :: "env \<Rightarrow> operation \<Rightarrow> table \<Rightarrow> table" where
  "run_operation e (Create dto) tbl = snd (create e dto tbl)"
| "run_operation e FindAll tbl = tbl"
| "run_operation e (UpdateStatus i s) tbl = snd (updateStatus e i s tbl)"
| "run_operation e (Remove i) tbl = snd (remove e i tbl)"


section \<open>The client view-model (web-app/src/App.vue)\<close>

subsection \<open>Tasks, requests and responses\<close>

text \<open>
  A task as the client receives it in JSON. The declared type of \<open>status\<close> is the union
  of three literals, but the value is whatever string the response holds, and the code
  compares it with \<open>===\<close>.
\<close>

record ClientTask =
  c_id :: jsstring
  c_title :: jsstring
  c_status :: jsstring

text \<open>The four requests the client sends to \<open>API_URL\<close>.\<close>

datatype request =
    GET_tasks
  | POST_tasks jsstring
  | DELETE_task jsstring
  | PATCH_task jsstring jsstring

text \<open>
  What \<open>response.json()\<close> gives: a rejection with the parse error's message, an array
  of tasks, or an object with its \<open>message\<close> property (a string or an array of strings)
  when it has one.
\<close>

datatype message = MsgString jsstring | MsgArray "jsstring list"

datatype body =
    NotJson jsstring
  | JsonTasks "ClientTask list"
  | JsonObject "message option"

record response =
  ok :: bool
  statusText :: jsstring
  body :: body

text \<open>\<open>fetch\<close> rejects with an error (its message) or resolves with a response.\<close>

datatype fetch_result = Rejected jsstring | Resolved response

text \<open>
  The network and the server behind it are a parameter: a transport answers a request in
  a server state and gives the next server state. The world also records every request
  the client has sent.
\<close>

type_synonym 'srv transport = "request \<Rightarrow> 'srv \<Rightarrow> fetch_result \<times> 'srv"

record 'srv world =
  server :: 'srv
  sent :: "request list"

definition fetch :: "'srv transport \<Rightarrow> request \<Rightarrow> 'srv world \<Rightarrow> fetch_result \<times> 'srv world" where
  "fetch tr req w =
     (case tr req (server w) of
        (res, s') \<Rightarrow> (res, \<lparr>server = s', sent = sent w @ [req]\<rparr>))"

subsection \<open>The state of the component\<close>

record view =
  todoTasks :: "ClientTask list"
  progressTasks :: "ClientTask list"
  doneTasks :: "ClientTask list"
  newTaskTitle :: jsstring
  isLoading :: bool
  errorMessage :: "jsstring option"

subsection \<open>fetchTasks\<close>

text \<open>The body of the \<open>forEach\<close> callback, and the loop over the fetched array.\<close>

definition place_task :: "ClientTask \<Rightarrow> view \<Rightarrow> view" where
  "place_task task v =
     (if c_status task = js ''todo'' then v\<lparr>todoTasks := todoTasks v @ [task]\<rparr>
      else if c_status task = js ''progress'' then v\<lparr>progressTasks := progressTasks v @ [task]\<rparr>
      else if c_status task = js ''done'' then v\<lparr>doneTasks := doneTasks v @ [task]\<rparr>
      else v)"

fun forEach_place :: "ClientTask list \<Rightarrow> view \<Rightarrow> view" where
  "forEach_place [] v = v"
| "forEach_place (task # tasks) v = forEach_place tasks (place_task task v)"

text \<open>\<open>error.message || 'Terjadi kesalahan saat menghubungi server.'\<close>\<close>

definition message_or_default :: "jsstring \<Rightarrow> jsstring" where
  "message_or_default m =
     (if m = [] then js ''Terjadi kesalahan saat menghubungi server.'' else m)"

text \<open>
  The \<open>try\<close> block of \<open>fetchTasks\<close> on the result of its request. An error thrown
  before the boards are emptied leaves them as they were; a body that is not an array
  makes \<open>tasks.forEach\<close> throw a TypeError after the boards were emptied.
\<close>

definition fill_boards :: "fetch_result \<Rightarrow> view \<Rightarrow> view" where
  "fill_boards res v =
     (case res of
        Rejected m \<Rightarrow> v\<lparr>errorMessage := Some (message_or_default m)\<rparr>
      | Resolved r \<Rightarrow>
          if \<not> ok r
          then v\<lparr>errorMessage :=
                  Some (message_or_default (js ''Gagal mengambil data: '' @ statusText r))\<rparr>
          else (case body r of
                  NotJson m \<Rightarrow> v\<lparr>errorMessage := Some (message_or_default m)\<rparr>
                | JsonTasks tasks \<Rightarrow>
                    forEach_place tasks
                      (v\<lparr>todoTasks := [], progressTasks := [], doneTasks := []\<rparr>)
                | JsonObject m \<Rightarrow>
                    v\<lparr>todoTasks := [], progressTasks := [], doneTasks := [],
                      errorMessage :=
                        Some (message_or_default (js ''tasks.forEach is not a function''))\<rparr>))"

definition fetchTasks :: "'srv transport \<Rightarrow> view \<times> 'srv world \<Rightarrow> view \<times> 'srv world" where
  "fetchTasks tr = (\<lambda>(v, w).
     (case fetch tr GET_tasks w of
        (res, w') \<Rightarrow>
          ((fill_boards res (v\<lparr>errorMessage := None\<rparr>))\<lparr>isLoading := False\<rparr>, w')))"

subsection \<open>addTask\<close>

text \<open>
  The message of the error thrown on a response that is not ok:
  \<open>errorData?.message || 'Gagal menambahkan tugas baru.'\<close>, an array joined with a comma.
\<close>

definition addTask_error :: "body \<Rightarrow> jsstring" where
  "addTask_error b =
     (case b of
        JsonObject (Some (MsgString m)) \<Rightarrow>
          if m = [] then js ''Gagal menambahkan tugas baru.'' else m
      | JsonObject (Some (MsgArray ms)) \<Rightarrow> join (js '', '') ms
      | _ \<Rightarrow> js ''Gagal menambahkan tugas baru.'')"

definition addTask :: "'srv transport \<Rightarrow> view \<times> 'srv world \<Rightarrow> view \<times> 'srv world" where
  "addTask tr = (\<lambda>(v, w).
     if trim (newTaskTitle v) = [] then (v, w)
     else
       (case fetch tr (POST_tasks (trim (newTaskTitle v))) w of
          (Rejected m, w1) \<Rightarrow> (v\<lparr>errorMessage := Some m\<rparr>, w1)
        | (Resolved r, w1) \<Rightarrow>
            if \<not> ok r then (v\<lparr>errorMessage := Some (addTask_error (body r))\<rparr>, w1)
            else (case fetchTasks tr (v, w1) of
                    (v2, w2) \<Rightarrow> (v2\<lparr>newTaskTitle := []\<rparr>, w2))))"

subsection \<open>deleteTask\<close>




subsection \<open>handleTaskMove\<close>




subsection \<open>A server for the examples\<close>

text \<open>
  A transport used in the examples below: its state is the list of tasks a GET returns.
  A POST appends a todo task (the title also serves as its id), a DELETE drops the tasks
  of that id, a PATCH sets their status; a DELETE or PATCH of an unknown id is answered
  404.
\<close>

definition reply :: "bool \<Rightarrow> string \<Rightarrow> body \<Rightarrow> fetch_result" where
  "reply success text b = Resolved \<lparr>ok = success, statusText = js text, body = b\<rparr>"

fun example_server :: "ClientTask list transport" where
  "example_server GET_tasks ts = (reply True ''OK'' (JsonTasks ts), ts)"
| "example_server (POST_tasks t) ts =
     (reply True ''Created'' (JsonObject None),
      ts @ [\<lparr>c_id = t, c_title = t, c_status = js ''todo''\<rparr>])"
| "example_server (DELETE_task i) ts =
     (if i \<in> c_id ` set ts
      then (reply True ''No Content'' (NotJson []), filter (\<lambda>t. c_id t \<noteq> i) ts)
      else (reply False ''Not Found'' (JsonObject (Some (MsgString (js ''not found'')))), ts))"
| "example_server (PATCH_task i s) ts =
     (if i \<in> c_id ` set ts
      then (reply True ''OK'' (JsonObject None),
            map (\<lambda>t. if c_id t = i then t\<lparr>c_status := s\<rparr> else t) ts)
      else (reply False ''Not Found'' (JsonObject (Some (MsgString (js ''not found'')))), ts))"


section \<open>Example data\<close>

text \<open>
  A table with one live and one soft-deleted row, and a write at time 9.
\<close>

definition example_env :: env where
  "example_env = \<lparr>generated_uuid = js ''u-3'', current_timestamp = 9\<rparr>"

definition live_row :: Task where
  "live_row = \<lparr>task_id = js ''u-1'', title = js ''write report'', status = TODO,
     createdAt = 1, updatedAt = 1, deletedAt = None\<rparr>"

definition deleted_row :: Task where
  "deleted_row = \<lparr>task_id = js ''u-2'', title = js ''old task'', status = PROGRESS,
     createdAt = 2, updatedAt = 3, deletedAt = Some 3\<rparr>"

definition example_table :: table where
  "example_table = [live_row, deleted_row]"

text \<open>
  Tasks as the client sees them; \<open>task_x\<close> has a status that is none of the three columns.
  In \<open>example_world\<close> the server already holds \<open>task_b\<close>, which the client has not
  fetched yet.
\<close>

definition task_a :: ClientTask where
  "task_a = \<lparr>c_id = js ''1'', c_title = js ''call the bank'', c_status = js ''todo''\<rparr>"

definition task_b :: ClientTask where
  "task_b = \<lparr>c_id = js ''2'', c_title = js ''water plants'', c_status = js ''todo''\<rparr>"

definition task_c :: ClientTask where
  "task_c = \<lparr>c_id = js ''3'', c_title = js ''file taxes'', c_status = js ''done''\<rparr>"

definition task_x :: ClientTask where
  "task_x = \<lparr>c_id = js ''4'', c_title = js ''archived'', c_status = js ''archived''\<rparr>"





definition example_view :: view where
  "example_view = \<lparr>todoTasks = [task_a], progressTasks = [], doneTasks = [task_c],
     newTaskTitle = js ''  '', isLoading = False, errorMessage = None\<rparr>"


definition example_world :: "ClientTask list world" where
  "example_world = \<lparr>server = [task_a, task_b, task_c, task_x], sent = []\<rparr>"



section \<open>Properties of the API service\<close>


subsection \<open>Reads\<close>

lemma select_rows_filter:
  "select_rows d wh tbl = filter (\<lambda>r. wh r \<and> (d \<or> deletedAt r = None)) tbl"
  by (induction tbl) auto

lemma findAll_subset: "set (findAll tbl) \<subseteq> set tbl"
  by (auto simp: findAll_def repository_find_def select_rows_filter)

lemma findOne_Inr:
  "findOne i tbl = Inr task \<Longrightarrow> task \<in> set tbl \<and> task_id task = i \<and> deletedAt task = None"
proof -
  assume a: "findOne i tbl = Inr task"
  then obtain rs where "select_rows False (\<lambda>r. task_id r = i) tbl = task # rs"
    by (auto simp: findOne_def repository_findOneBy_def split: option.splits list.splits)
  then have "task \<in> set (filter (\<lambda>r. task_id r = i \<and> deletedAt r = None) tbl)"
    by (simp add: select_rows_filter)
  then show ?thesis by simp
qed

lemma findOne_Inl_iff:
  "(\<exists>err. findOne i tbl = Inl err) \<longleftrightarrow> i \<notin> task_id ` set (findAll tbl)"
proof -
  have "(\<exists>err. findOne i tbl = Inl err) \<longleftrightarrow>
        filter (\<lambda>r. task_id r = i \<and> deletedAt r = None) tbl = []"
    by (simp add: findOne_def repository_findOneBy_def select_rows_filter
        split: option.splits list.splits)
  also have "\<dots> \<longleftrightarrow> i \<notin> task_id ` set (findAll tbl)"
    by (auto simp: filter_empty_conv findAll_def repository_find_def select_rows_filter)
  finally show ?thesis .
qed

lemma findOne_Inl: "findOne i tbl = Inl err \<Longrightarrow> err = NotFoundException i"
  by (auto simp: findOne_def split: option.splits)

text \<open>
  C1. A task whose \<open>deletedAt\<close> is set is not in the result of \<open>findAll\<close>: the result
  is the table without its soft-deleted rows, in the table's order.
\<close>

theorem findAll_excludes_soft_deleted:
  "findAll tbl = filter (\<lambda>t. deletedAt t = None) tbl \<and>
   (\<forall>t. deletedAt t \<noteq> None \<longrightarrow> t \<notin> set (findAll tbl)) \<and>
   (\<forall>t. t \<in> set (findAll tbl) \<longleftrightarrow> t \<in> set tbl \<and> deletedAt t = None)"
  by (auto simp: findAll_def repository_find_def select_rows_filter)

text \<open>
  On the example table the soft-deleted row is left out and the live one is returned.
\<close>

theorem findAll_excludes_soft_deleted_witness:
  "deletedAt deleted_row \<noteq> None \<and> deleted_row \<in> set example_table \<and>
   deleted_row \<notin> set (findAll example_table) \<and> findAll example_table = [live_row]"
  using findAll_excludes_soft_deleted [of example_table]
  by (simp add: example_table_def live_row_def deleted_row_def)


subsection \<open>Soft delete\<close>

lemma softDelete_rows:
  "snd (repository_softDelete e i tbl) =
     map (\<lambda>r. if task_id r = i
               then r\<lparr>deletedAt := Some (current_timestamp e), updatedAt := current_timestamp e\<rparr>
               else r) tbl"
  by (simp add: repository_softDelete_def)

lemma remove_table: "snd (remove e i tbl) = snd (repository_softDelete e i tbl)"
  by (simp add: remove_def split: prod.splits)

lemma softDelete_absent:
  "i \<notin> task_id ` set tbl \<Longrightarrow> repository_softDelete e i tbl = (0, tbl)"
  by (induction tbl) (auto simp: repository_softDelete_def)

lemma softDelete_present:
  "i \<in> task_id ` set tbl \<Longrightarrow> fst (repository_softDelete e i tbl) \<noteq> 0"
  by (auto simp: repository_softDelete_def filter_empty_conv)

lemma length_remove: "length (snd (remove e i tbl)) = length tbl"
  by (simp add: remove_table softDelete_rows)

lemma length_create: "length (snd (create e dto tbl)) = Suc (length tbl)"
  by (simp add: create_def repository_insert_def Let_def)

lemma updateStatus_table:
  "snd (updateStatus e i s tbl) = tbl \<or>
   (\<exists>task. findOne i tbl = Inr task \<and>
      snd (updateStatus e i s tbl) =
        map (\<lambda>r. if task_id r = task_id task
                  then task\<lparr>status := s, updatedAt := current_timestamp e\<rparr> else r) tbl)"
  by (auto simp: updateStatus_def repository_save_def Let_def split: sum.splits)

lemma length_updateStatus: "length (snd (updateStatus e i s tbl)) = length tbl"
  using updateStatus_table [of e i s tbl] by auto

lemma length_run_operation: "length tbl \<le> length (run_operation e op tbl)"
  by (cases op) (simp_all add: length_create length_updateStatus length_remove)

text \<open>
  C2, as the code has it. \<open>remove\<close> keeps every row: the rows of the given id get the
  deletion timestamp and a new update timestamp, their id, title, status and creation
  timestamp stay, every other row is untouched, and no operation of the service makes the
  table shorter.
\<close>

theorem remove_keeps_rows:
  "length (snd (remove e i tbl)) = length tbl \<and>
   list_all2 (\<lambda>r r'. task_id r' = task_id r \<and> title r' = title r \<and> status r' = status r \<and>
       createdAt r' = createdAt r \<and>
       (task_id r = i \<longrightarrow>
          deletedAt r' = Some (current_timestamp e) \<and> updatedAt r' = current_timestamp e) \<and>
       (task_id r \<noteq> i \<longrightarrow> r' = r))
     tbl (snd (remove e i tbl)) \<and>
   (\<forall>op. length tbl \<le> length (run_operation e op tbl))"
  by (simp add: remove_table softDelete_rows list_all2_map2 list_all2_same length_run_operation)

text \<open>
  Removing the live row of the example table marks it and keeps both rows.
\<close>

theorem remove_keeps_rows_witness:
  "snd (remove example_env (js ''u-1'') example_table) =
     [live_row\<lparr>deletedAt := Some 9, updatedAt := 9\<rparr>, deleted_row] \<and>
   length (run_operation example_env (Remove (js ''u-1'')) example_table) = 2"
  using remove_keeps_rows [of example_env "js ''u-1''" example_table]
  by (simp add: example_table_def live_row_def deleted_row_def example_env_def js_def
      remove_table softDelete_rows)

text \<open>
  C2 as stated says that \<open>remove\<close> sets \<open>deletedAt\<close> only. On the example table the
  update timestamp of the removed row goes from 1 to 9 as well.
\<close>

theorem remove_sets_updatedAt_counterexample:
  "updatedAt (hd example_table) = 1 \<and>
   updatedAt (hd (snd (remove example_env (js ''u-1'') example_table))) = 9 \<and>
   task_id (hd example_table) = js ''u-1''"
  by (simp add: example_table_def live_row_def deleted_row_def example_env_def js_def
      remove_table softDelete_rows)


subsection \<open>Create\<close>

text \<open>
  C3. For a title the schema accepts, \<open>create\<close> returns a task with status todo, the
  title of the DTO and no deletion timestamp, and that task is the row appended to the
  table; \<open>findAll\<close> returns it.
\<close>

theorem create_gives_todo_task:
  assumes "CreateTaskSchema raw = Inr dto" and "create e dto tbl = (task, tbl')"
  shows "status task = TODO \<and> title task = dto_title dto \<and> deletedAt task = None \<and>
         tbl' = tbl @ [task] \<and> task \<in> set (findAll tbl')"
  using assms(2)
  by (auto simp: create_def repository_create_def repository_insert_def Let_def
      findAll_def repository_find_def select_rows_filter)

text \<open>
  Creating ``buy milk'' in the example table.
\<close>

theorem create_gives_todo_task_witness:
  "CreateTaskSchema (js ''buy milk '') = Inr \<lparr>dto_title = js ''buy milk''\<rparr> \<and>
   status (fst (create example_env \<lparr>dto_title = js ''buy milk''\<rparr> example_table)) = TODO \<and>
   title (fst (create example_env \<lparr>dto_title = js ''buy milk''\<rparr> example_table)) = js ''buy milk'' \<and>
   deletedAt (fst (create example_env \<lparr>dto_title = js ''buy milk''\<rparr> example_table)) = None \<and>
   snd (create example_env \<lparr>dto_title = js ''buy milk''\<rparr> example_table) =
     example_table @ [fst (create example_env \<lparr>dto_title = js ''buy milk''\<rparr> example_table)]"
proof -
  have a: "CreateTaskSchema (js ''buy milk '') = Inr \<lparr>dto_title = js ''buy milk''\<rparr>"
    by (simp add: CreateTaskSchema_def js_def trim_def isWhiteSpace_def)
  show ?thesis
    using a create_gives_todo_task [OF a, of example_env example_table
        "fst (create example_env \<lparr>dto_title = js ''buy milk''\<rparr> example_table)"
        "snd (create example_env \<lparr>dto_title = js ''buy milk''\<rparr> example_table)"]
    by simp
qed


subsection \<open>Validation\<close>

text \<open>
  The schema decides on the length of the title as it was sent; the stored title is the
  trimmed one.
\<close>

lemma CreateTaskSchema_eq:
  "CreateTaskSchema t = (if 1 \<le> length t \<and> length t \<le> 255 then Inr \<lparr>dto_title = trim t\<rparr>
     else Inl ((if length t < 1 then [too_small] else []) @ (if length t > 255 then [too_big] else [])))"
  by (cases t) (auto simp: CreateTaskSchema_def)

text \<open>
  C4. A title of one space passes \<open>min(1)\<close> and \<open>max(255)\<close>, which run before \<open>trim\<close>,
  and the DTO then holds the empty title.
\<close>

theorem CreateTaskSchema_accepts_blank: "CreateTaskSchema (js '' '') = Inr \<lparr>dto_title = []\<rparr>"
  by (simp add: CreateTaskSchema_def js_def trim_def isWhiteSpace_def)


subsection \<open>Status update\<close>

text \<open>
  The primary key is an invariant of the service: the operations keep the ids of the rows,
  and a create appends a row with the generated id, which the database guarantees is new.
\<close>

lemma ids_updateStatus: "map task_id (snd (updateStatus e i s tbl)) = map task_id tbl"
proof -
  have "map task_id (map (\<lambda>r. if task_id r = task_id task then task\<lparr>status := s, updatedAt := t\<rparr> else r) tbl)
      = map task_id tbl" for task t
    by (induction tbl) auto
  with updateStatus_table [of e i s tbl] show ?thesis by auto
qed

lemma ids_remove: "map task_id (snd (remove e i tbl)) = map task_id tbl"
  by (induction tbl) (auto simp: remove_table softDelete_rows)

lemma primary_key_preserved:
  assumes "primary_key tbl" and "generated_uuid e \<notin> task_id ` set tbl"
  shows "primary_key (run_operation e op tbl)"
proof (cases op)
  case (Create dto)
  with assms show ?thesis
    by (simp add: primary_key_def create_def repository_insert_def Let_def)
next
  case FindAll
  with assms show ?thesis by simp
next
  case (UpdateStatus i s)
  with assms show ?thesis by (simp add: primary_key_def ids_updateStatus)
next
  case (Remove i)
  with assms show ?thesis by (simp add: primary_key_def ids_remove)
qed

text \<open>
  C7. On a table that satisfies its primary key, \<open>updateStatus\<close> leaves the id, title,
  creation timestamp and deletion timestamp of every row as they were and leaves every row
  of another id unchanged; when the id belongs to a row that is not soft-deleted, the task
  returned has the new status and is the row stored.
\<close>

theorem updateStatus_frame:
  assumes "primary_key tbl"
  shows "list_all2 (\<lambda>r r'. task_id r' = task_id r \<and> title r' = title r \<and>
            createdAt r' = createdAt r \<and> deletedAt r' = deletedAt r \<and>
            (task_id r \<noteq> i \<longrightarrow> r' = r))
          tbl (snd (updateStatus e i s tbl)) \<and>
         (i \<in> task_id ` set (findAll tbl) \<longrightarrow>
            (\<exists>task. fst (updateStatus e i s tbl) = Inr task \<and> task_id task = i \<and>
               status task = s \<and> task \<in> set (snd (updateStatus e i s tbl))))"
proof (cases "findOne i tbl")
  case (Inl err)
  then have "i \<notin> task_id ` set (findAll tbl)"
    using findOne_Inl_iff [of i tbl] by blast
  moreover have "snd (updateStatus e i s tbl) = tbl"
    using Inl by (simp add: updateStatus_def)
  ultimately show ?thesis
    by (simp add: list_all2_same)
next
  case (Inr task)
  let ?saved = "task\<lparr>status := s, updatedAt := current_timestamp e\<rparr>"
  from Inr have task: "task \<in> set tbl" "task_id task = i" "deletedAt task = None"
    using findOne_Inr by blast+
  have upd: "updateStatus e i s tbl =
      (Inr ?saved, map (\<lambda>r. if task_id r = i then ?saved else r) tbl)"
    using Inr task(2) by (simp add: updateStatus_def repository_save_def Let_def)
  have inj: "inj_on task_id (set tbl)"
    using assms by (simp add: primary_key_def distinct_map)
  have same: "r = task" if "r \<in> set tbl" "task_id r = i" for r
    using inj that task(1,2) by (auto dest: inj_onD)
  have frame: "list_all2 (\<lambda>r r'. task_id r' = task_id r \<and> title r' = title r \<and>
            createdAt r' = createdAt r \<and> deletedAt r' = deletedAt r \<and>
            (task_id r \<noteq> i \<longrightarrow> r' = r))
          tbl (snd (updateStatus e i s tbl))"
    using same by (auto simp: upd list_all2_map2 list_all2_same)
  have "?saved \<in> set (snd (updateStatus e i s tbl))"
    using task(1,2) by (auto simp: upd image_iff intro!: bexI [of _ task])
  with frame task(2) show ?thesis
    by (simp add: upd)
qed

text \<open>
  Moving the live row of the example table to done.
\<close>

theorem updateStatus_frame_witness:
  "primary_key example_table \<and>
   snd (updateStatus example_env (js ''u-1'') DONE example_table) =
     [live_row\<lparr>status := DONE, updatedAt := 9\<rparr>, deleted_row] \<and>
   fst (updateStatus example_env (js ''u-1'') DONE example_table) =
     Inr (live_row\<lparr>status := DONE, updatedAt := 9\<rparr>)"
proof -
  have pk: "primary_key example_table"
    by (simp add: primary_key_def example_table_def live_row_def deleted_row_def js_def)
  have "js ''u-1'' \<in> task_id ` set (findAll example_table)"
    by (simp add: findAll_def repository_find_def example_table_def live_row_def
        deleted_row_def)
  with pk updateStatus_frame [OF pk, of "js ''u-1''" example_env DONE] show ?thesis
    by (simp add: updateStatus_def findOne_def repository_findOneBy_def repository_save_def
        Let_def example_table_def live_row_def deleted_row_def example_env_def js_def)
qed


subsection \<open>Unknown ids\<close>

text \<open>
  C8, as the code has it. For an id that no row has, \<open>updateStatus\<close> and \<open>remove\<close> raise
  \<open>NotFoundException\<close> and leave the table as it was. \<open>remove\<close> does not raise for an id
  some row has. \<open>updateStatus\<close> does not raise for the id of a row that is not
  soft-deleted, and raises \<open>NotFoundException\<close>, leaving the table as it was, for every
  other id.
\<close>

theorem not_found_iff_no_visible_row:
  "(i \<notin> task_id ` set tbl \<longrightarrow>
      updateStatus e i s tbl = (Inl (NotFoundException i), tbl) \<and>
      remove e i tbl = (Inl (NotFoundException i), tbl)) \<and>
   (i \<in> task_id ` set tbl \<longrightarrow> fst (remove e i tbl) = Inr ()) \<and>
   (i \<in> task_id ` set (findAll tbl) \<longrightarrow> (\<exists>task. fst (updateStatus e i s tbl) = Inr task)) \<and>
   (i \<notin> task_id ` set (findAll tbl) \<longrightarrow>
      updateStatus e i s tbl = (Inl (NotFoundException i), tbl))"
proof -
  have hidden: "updateStatus e i s tbl = (Inl (NotFoundException i), tbl)"
    if "i \<notin> task_id ` set (findAll tbl)"
  proof -
    from that obtain err where "findOne i tbl = Inl err"
      using findOne_Inl_iff [of i tbl] by blast
    then show ?thesis
      by (auto simp: updateStatus_def dest: findOne_Inl)
  qed
  have visible: "\<exists>task. fst (updateStatus e i s tbl) = Inr task"
    if "i \<in> task_id ` set (findAll tbl)"
  proof (cases "findOne i tbl")
    case (Inl err)
    with that show ?thesis using findOne_Inl_iff [of i tbl] by blast
  next
    case (Inr task)
    then show ?thesis
      by (simp add: updateStatus_def repository_save_def Let_def)
  qed
  have absent: "i \<notin> task_id ` set (findAll tbl)" if "i \<notin> task_id ` set tbl"
    using that findAll_subset [of tbl] by blast
  have rm_absent: "remove e i tbl = (Inl (NotFoundException i), tbl)"
    if "i \<notin> task_id ` set tbl"
    using that by (simp add: remove_def softDelete_absent)
  have rm_present: "fst (remove e i tbl) = Inr ()" if "i \<in> task_id ` set tbl"
    using softDelete_present [OF that, of e]
    by (cases "repository_softDelete e i tbl") (simp add: remove_def)
  from hidden visible absent rm_absent rm_present show ?thesis
    by blast
qed

text \<open>
  An unknown id, the soft-deleted row and the live row of the example table.
\<close>

theorem not_found_iff_no_visible_row_witness:
  "js ''u-7'' \<notin> task_id ` set example_table \<and>
   updateStatus example_env (js ''u-7'') DONE example_table =
     (Inl (NotFoundException (js ''u-7'')), example_table) \<and>
   remove example_env (js ''u-7'') example_table =
     (Inl (NotFoundException (js ''u-7'')), example_table) \<and>
   js ''u-2'' \<in> task_id ` set example_table \<and>
   fst (remove example_env (js ''u-2'') example_table) = Inr () \<and>
   js ''u-1'' \<in> task_id ` set (findAll example_table) \<and>
   fst (updateStatus example_env (js ''u-1'') PROGRESS example_table) =
     Inr (live_row\<lparr>status := PROGRESS, updatedAt := 9\<rparr>) \<and>
   js ''u-2'' \<notin> task_id ` set (findAll example_table) \<and>
   updateStatus example_env (js ''u-2'') DONE example_table =
     (Inl (NotFoundException (js ''u-2'')), example_table)"
proof -
  have a: "js ''u-7'' \<notin> task_id ` set example_table"
    and b: "js ''u-2'' \<in> task_id ` set example_table"
    by (simp_all add: example_table_def live_row_def deleted_row_def js_def)
  have c: "js ''u-1'' \<in> task_id ` set (findAll example_table)"
    and d: "js ''u-2'' \<notin> task_id ` set (findAll example_table)"
    by (simp_all add: findAll_def repository_find_def example_table_def live_row_def
        deleted_row_def js_def)
  have e: "fst (updateStatus example_env (js ''u-1'') PROGRESS example_table) =
     Inr (live_row\<lparr>status := PROGRESS, updatedAt := 9\<rparr>)"
    by (simp add: updateStatus_def findOne_def repository_findOneBy_def repository_save_def
        Let_def example_table_def live_row_def deleted_row_def example_env_def js_def)
  from a b c d e
    not_found_iff_no_visible_row [of "js ''u-7''" example_table example_env DONE]
    not_found_iff_no_visible_row [of "js ''u-2''" example_table example_env DONE]
    not_found_iff_no_visible_row [of "js ''u-1''" example_table example_env PROGRESS]
  show ?thesis by simp
qed

text \<open>
  C8 as stated says that neither operation raises for an id that is present. The id
  \<open>u-2\<close> is the id of a stored row, which is soft-deleted, and \<open>updateStatus\<close> raises
  \<open>NotFoundException\<close> for it.
\<close>

theorem updateStatus_soft_deleted_counterexample:
  "js ''u-2'' \<in> task_id ` set example_table \<and>
   updateStatus example_env (js ''u-2'') DONE example_table =
     (Inl (NotFoundException (js ''u-2'')), example_table)"
  by (simp add: updateStatus_def findOne_def repository_findOneBy_def
      example_table_def live_row_def deleted_row_def js_def)


section \<open>Properties of the client view-model\<close>


subsection \<open>fetchTasks\<close>

lemma status_literals:
  "js ''todo'' \<noteq> js ''progress''" "js ''todo'' \<noteq> js ''done''" "js ''progress'' \<noteq> js ''done''"
  by (simp_all add: js_def)

lemma place_task_fields:
  "todoTasks (place_task t v) = todoTasks v @ filter (\<lambda>t. c_status t = js ''todo'') [t]"
  "progressTasks (place_task t v) = progressTasks v @ filter (\<lambda>t. c_status t = js ''progress'') [t]"
  "doneTasks (place_task t v) = doneTasks v @ filter (\<lambda>t. c_status t = js ''done'') [t]"
  "errorMessage (place_task t v) = errorMessage v"
  "newTaskTitle (place_task t v) = newTaskTitle v"
  "isLoading (place_task t v) = isLoading v"
  using status_literals by (auto simp: place_task_def)

lemma forEach_place_fields:
  "todoTasks (forEach_place ts v) = todoTasks v @ filter (\<lambda>t. c_status t = js ''todo'') ts"
  "progressTasks (forEach_place ts v) = progressTasks v @ filter (\<lambda>t. c_status t = js ''progress'') ts"
  "doneTasks (forEach_place ts v) = doneTasks v @ filter (\<lambda>t. c_status t = js ''done'') ts"
  "errorMessage (forEach_place ts v) = errorMessage v"
  "newTaskTitle (forEach_place ts v) = newTaskTitle v"
  "isLoading (forEach_place ts v) = isLoading v"
  by (induction ts arbitrary: v) (simp_all add: place_task_fields)

lemma fetchTasks_success:
  assumes "tr GET_tasks (server w) = (Resolved r, s')" and "ok r" and "body r = JsonTasks tasks"
  shows "fetchTasks tr (v, w) =
    (v\<lparr>todoTasks := filter (\<lambda>t. c_status t = js ''todo'') tasks,
       progressTasks := filter (\<lambda>t. c_status t = js ''progress'') tasks,
       doneTasks := filter (\<lambda>t. c_status t = js ''done'') tasks,
       errorMessage := None, isLoading := False\<rparr>,
     \<lparr>server = s', sent = sent w @ [GET_tasks]\<rparr>)"
  using assms
  by (simp add: fetchTasks_def fetch_def fill_boards_def forEach_place_fields
      view.equality)

lemma example_GET:
  "example_server GET_tasks (server example_world) =
     (Resolved \<lparr>ok = True, statusText = js ''OK'',
        body = JsonTasks [task_a, task_b, task_c, task_x]\<rparr>, [task_a, task_b, task_c, task_x])"
  by (simp add: example_world_def reply_def)

text \<open>
  C6. When the GET succeeds with an array of tasks, each of the three lists is the fetched
  array filtered on its status: a fetched task with status todo, progress or done is in the
  list of its status and in no other, and the lists are the same whatever the view held
  before.
\<close>

theorem fetchTasks_partitions_by_status:
  assumes "tr GET_tasks (server w) = (Resolved r, s')" and "ok r" and "body r = JsonTasks tasks"
  shows "todoTasks (fst (fetchTasks tr (v, w))) = filter (\<lambda>t. c_status t = js ''todo'') tasks \<and>
    progressTasks (fst (fetchTasks tr (v, w))) = filter (\<lambda>t. c_status t = js ''progress'') tasks \<and>
    doneTasks (fst (fetchTasks tr (v, w))) = filter (\<lambda>t. c_status t = js ''done'') tasks \<and>
    (\<forall>t \<in> set tasks. c_status t = js ''todo'' \<longrightarrow>
       t \<in> set (todoTasks (fst (fetchTasks tr (v, w)))) \<and>
       t \<notin> set (progressTasks (fst (fetchTasks tr (v, w)))) \<and>
       t \<notin> set (doneTasks (fst (fetchTasks tr (v, w))))) \<and>
    (\<forall>t \<in> set tasks. c_status t = js ''progress'' \<longrightarrow>
       t \<notin> set (todoTasks (fst (fetchTasks tr (v, w)))) \<and>
       t \<in> set (progressTasks (fst (fetchTasks tr (v, w)))) \<and>
       t \<notin> set (doneTasks (fst (fetchTasks tr (v, w))))) \<and>
    (\<forall>t \<in> set tasks. c_status t = js ''done'' \<longrightarrow>
       t \<notin> set (todoTasks (fst (fetchTasks tr (v, w)))) \<and>
       t \<notin> set (progressTasks (fst (fetchTasks tr (v, w)))) \<and>
       t \<in> set (doneTasks (fst (fetchTasks tr (v, w))))) \<and>
    (\<forall>v2. todoTasks (fst (fetchTasks tr (v2, w))) = todoTasks (fst (fetchTasks tr (v, w))) \<and>
       progressTasks (fst (fetchTasks tr (v2, w))) = progressTasks (fst (fetchTasks tr (v, w))) \<and>
       doneTasks (fst (fetchTasks tr (v2, w))) = doneTasks (fst (fetchTasks tr (v, w))))"
  using status_literals by (simp add: fetchTasks_success [where tr = tr and w = w, OF assms])

text \<open>
  Fetching from the example server: two todo tasks, one done task.
\<close>

theorem fetchTasks_partitions_by_status_witness:
  "todoTasks (fst (fetchTasks example_server (example_view, example_world))) = [task_a, task_b] \<and>
   progressTasks (fst (fetchTasks example_server (example_view, example_world))) = [] \<and>
   doneTasks (fst (fetchTasks example_server (example_view, example_world))) = [task_c]"
  using fetchTasks_partitions_by_status
      [where tr = example_server and w = example_world and v = example_view, OF example_GET]
  by (simp add: task_a_def task_b_def task_c_def task_x_def js_def)

text \<open>
  C10. When the GET succeeds with an array of tasks, a fetched task whose status is none of
  todo, progress and done is in none of the three lists, and no error message is set.
\<close>

theorem fetchTasks_drops_unknown_status:
  assumes "tr GET_tasks (server w) = (Resolved r, s')" and "ok r" and "body r = JsonTasks tasks"
    and "t \<in> set tasks"
    and "c_status t \<noteq> js ''todo''" and "c_status t \<noteq> js ''progress''"
    and "c_status t \<noteq> js ''done''"
  shows "t \<notin> set (todoTasks (fst (fetchTasks tr (v, w)))) \<and>
    t \<notin> set (progressTasks (fst (fetchTasks tr (v, w)))) \<and>
    t \<notin> set (doneTasks (fst (fetchTasks tr (v, w)))) \<and>
    errorMessage (fst (fetchTasks tr (v, w))) = None"
  using assms(5-7) by (simp add: fetchTasks_success [where tr = tr and w = w, OF assms(1-3)])

text \<open>
  The archived task of the example server is dropped.
\<close>

theorem fetchTasks_drops_unknown_status_witness:
  "task_x \<in> set (server example_world) \<and>
   task_x \<notin> set (todoTasks (fst (fetchTasks example_server (example_view, example_world)))) \<and>
   task_x \<notin> set (progressTasks (fst (fetchTasks example_server (example_view, example_world)))) \<and>
   task_x \<notin> set (doneTasks (fst (fetchTasks example_server (example_view, example_world)))) \<and>
   errorMessage (fst (fetchTasks example_server (example_view, example_world))) = None"
proof -
  have a: "task_x \<in> set [task_a, task_b, task_c, task_x]" by simp
  have b: "c_status task_x \<noteq> js ''todo''" "c_status task_x \<noteq> js ''progress''"
    "c_status task_x \<noteq> js ''done''"
    by (simp_all add: task_x_def js_def)
  show ?thesis
    using fetchTasks_drops_unknown_status
        [where tr = example_server and w = example_world and v = example_view,
          OF example_GET _ _ a b]
    by (simp add: example_world_def)
qed


subsection \<open>addTask\<close>

lemma trim_empty_iff: "trim s = [] \<longleftrightarrow> (\<forall>c \<in> set s. isWhiteSpace c)"
proof
  assume "trim s = []"
  then have "dropWhile isWhiteSpace (rev (dropWhile isWhiteSpace s)) = []"
    by (simp add: trim_def)
  then have "\<forall>c \<in> set (dropWhile isWhiteSpace s). isWhiteSpace c"
    by (simp add: dropWhile_eq_Nil_conv)
  then have "dropWhile isWhiteSpace s = []"
    by (metis hd_dropWhile hd_in_set)
  then show "\<forall>c \<in> set s. isWhiteSpace c"
    by (simp add: dropWhile_eq_Nil_conv)
next
  assume "\<forall>c \<in> set s. isWhiteSpace c"
  then show "trim s = []"
    by (auto simp: trim_def dest: set_dropWhileD)
qed

text \<open>
  C9. When the title field holds white space only (or nothing), \<open>addTask\<close> returns at
  once: no request is sent, and the view and the server are as they were.
\<close>

theorem addTask_blank_is_noop:
  assumes "\<forall>c \<in> set (newTaskTitle v). isWhiteSpace c"
  shows "addTask tr (v, w) = (v, w) \<and> sent (snd (addTask tr (v, w))) = sent w \<and>
    server (snd (addTask tr (v, w))) = server w \<and>
    todoTasks (fst (addTask tr (v, w))) = todoTasks v \<and>
    progressTasks (fst (addTask tr (v, w))) = progressTasks v \<and>
    doneTasks (fst (addTask tr (v, w))) = doneTasks v"
  using assms trim_empty_iff [of "newTaskTitle v"] by (simp add: addTask_def)

text \<open>
  The example view holds a title of two spaces.
\<close>

theorem addTask_blank_is_noop_witness:
  "newTaskTitle example_view = js ''  '' \<and>
   addTask example_server (example_view, example_world) = (example_view, example_world) \<and>
   sent (snd (addTask example_server (example_view, example_world))) = []"
proof -
  have a: "\<forall>c \<in> set (newTaskTitle example_view). isWhiteSpace c"
    by (simp add: example_view_def js_def isWhiteSpace_def)
  have b: "newTaskTitle example_view = js ''  ''" "sent example_world = []"
    by (simp_all add: example_view_def example_world_def)
  from b addTask_blank_is_noop [OF a, of example_server example_world] show ?thesis
    by simp
qed


subsection \<open>Mutations and the refetch\<close>













end
